theory Spec2Isabelle
  imports Main
begin

section \<open>Data model\<close>

text \<open>
  The program \<^verbatim>\<open>gcal_trisync.py\<close> handles calendar events as JSON objects (Python
  dicts). An event is a record whose optional keys are \<open>option\<close> fields: \<open>None\<close> is
  "key absent". Strings are ASCII character lists. The private extended properties
  (the sync metadata) are a dict from strings to strings, kept as an association
  list in insertion order and read with \<open>map_of\<close>.
\<close>

type_synonym meta = "(string \<times> string) list"

text \<open>A start or end time is a JSON object such as \<^verbatim>\<open>{'dateTime': ..., 'timeZone': ...}\<close>;
  the program only copies and compares it. It is kept as an association list with its
  keys in a fixed order; \<^verbatim>\<open>{}\<close> is the empty list.\<close>

type_synonym evtime = "(string \<times> string) list"

datatype reminders = Reminders bool "(string \<times> nat) list"

record extprops =
  private_meta :: "meta option"
  shared_meta :: "meta option"

text \<open>\<open>ev_updated\<close> is the provider's last-modification stamp, already parsed
  (\<^verbatim>\<open>isoparse\<close>) into a number; the default \<^verbatim>\<open>1970-01-01T00:00:00Z\<close> is \<open>0\<close>.
  The body handed to \<^verbatim>\<open>insert\<close> has no \<^verbatim>\<open>id\<close> key in the source; here it carries
  the empty id, which the gateway replaces.\<close>

record event =
  ev_id :: string
  ev_summary :: "string option"
  ev_location :: "string option"
  ev_description :: "string option"
  ev_start :: "evtime option"
  ev_end :: "evtime option"
  ev_visibility :: "string option"
  ev_reminders :: "reminders option"
  ev_eventType :: "string option"
  ev_updated :: "nat option"
  ev_extendedProperties :: "extprops option"

text \<open>One entry of \<^verbatim>\<open>cfg['calendars']\<close> together with the session that
  \<^verbatim>\<open>get_service\<close> opened for it (\<open>service\<close> is the handle).\<close>

record calendar =
  name :: string
  calendar_id :: string
  copy_visibility :: "string option"
  service :: nat

text \<open>The global configuration; a field is \<open>None\<close> when the key is absent, and each
  function applies the default that its \<^verbatim>\<open>cfg.get(key, default)\<close> names.\<close>

record config =
  prefix_origin_in_title :: "bool option"
  sync_tag_in_description :: "string option"
  ignore_if_summary_contains :: "string list option"
  ignore_event_types :: "string list option"
  skip_if_title_has_known_prefix :: "bool option"
  sync_delete :: "bool option"
  default_copy_visibility :: "string option"

section \<open>Python string operations\<close>

definition is_space :: "char \<Rightarrow> bool" where
  "is_space c = (let n = (of_char c :: nat) in (9 \<le> n \<and> n \<le> 13) \<or> (28 \<le> n \<and> n \<le> 32))"

definition strip :: "string \<Rightarrow> string" where
  "strip s = rev (dropWhile is_space (rev (dropWhile is_space s)))"

definition lower_char :: "char \<Rightarrow> char" where
  "lower_char c =
     (case map_of (zip ''ABCDEFGHIJKLMNOPQRSTUVWXYZ'' ''abcdefghijklmnopqrstuvwxyz'') c of
        None \<Rightarrow> c
      | Some l \<Rightarrow> l)"

definition lower :: "string \<Rightarrow> string" where
  "lower s = map lower_char s"

text \<open>\<^verbatim>\<open>s.startswith(p)\<close>\<close>

fun startswith :: "string \<Rightarrow> string \<Rightarrow> bool" where
  "startswith s [] = True"
| "startswith [] (p # ps) = False"
| "startswith (c # s) (p # ps) = (c = p \<and> startswith s ps)"

text \<open>\<^verbatim>\<open>needle in hay\<close> for strings: \<open>needle\<close> occurs as a contiguous substring.\<close>

fun py_in :: "string \<Rightarrow> string \<Rightarrow> bool" where
  "py_in needle [] = (needle = [])"
| "py_in needle (h # hay) = (startswith (h # hay) needle \<or> py_in needle hay)"

text \<open>\<^verbatim>\<open>x or ''\<close> and \<^verbatim>\<open>d.get(k, default)\<close>\<close>

definition or_empty :: "'a list option \<Rightarrow> 'a list" where
  "or_empty v = (case v of None \<Rightarrow> [] | Some s \<Rightarrow> s)"

definition get_or :: "'a option \<Rightarrow> 'a \<Rightarrow> 'a" where
  "get_or v d = (case v of None \<Rightarrow> d | Some x \<Rightarrow> x)"

section \<open>Pure helpers of the program\<close>

definition canonical_event_dict :: "event \<Rightarrow> event" where
  "canonical_event_dict e =
     \<lparr> ev_id = [],
       ev_summary = Some (get_or (ev_summary e) []),
       ev_location = Some (get_or (ev_location e) []),
       ev_description = Some (get_or (ev_description e) []),
       ev_start = Some (get_or (ev_start e) []),
       ev_end = Some (get_or (ev_end e) []),
       ev_visibility = None,
       ev_reminders = None,
       ev_eventType = None,
       ev_updated = None,
       ev_extendedProperties = None \<rparr>"

text \<open>The digest \<^verbatim>\<open>hashlib.sha1(...).hexdigest()\<close> is a parameter \<open>digest\<close>.\<close>

definition compute_chain_id :: "(string \<Rightarrow> string) \<Rightarrow> string \<Rightarrow> string \<Rightarrow> string" where
  "compute_chain_id digest origin_calendar_name event_id =
     digest (origin_calendar_name @ '':'' @ event_id)"

definition get_private_meta :: "event \<Rightarrow> meta" where
  "get_private_meta ev =
     (case ev_extendedProperties ev of
        None \<Rightarrow> []
      | Some ep \<Rightarrow> or_empty (private_meta ep))"

text \<open>\<^verbatim>\<open>d[k] = v\<close> on a dict in insertion order, and \<^verbatim>\<open>priv.update(d)\<close>: the keys
  of \<open>d\<close> in order, each overwriting in place or appended.\<close>

fun dict_set :: "'k \<Rightarrow> 'v \<Rightarrow> ('k \<times> 'v) list \<Rightarrow> ('k \<times> 'v) list" where
  "dict_set k v [] = [(k, v)]"
| "dict_set k v ((k', v') # rest) =
     (if k = k' then (k, v) # rest else (k', v') # dict_set k v rest)"

fun dict_update :: "meta \<Rightarrow> meta \<Rightarrow> meta" where
  "dict_update priv [] = priv"
| "dict_update priv ((k, v) # d) = dict_update (dict_set k v priv) d"

definition set_private_meta :: "event \<Rightarrow> meta \<Rightarrow> event" where
  "set_private_meta ev d =
     (let ep = (case ev_extendedProperties ev of
                  None \<Rightarrow> \<lparr> private_meta = None, shared_meta = None \<rparr>
                | Some ep \<Rightarrow> ep);
          priv = or_empty (private_meta ep)
      in ev \<lparr> ev_extendedProperties := Some (ep \<lparr> private_meta := Some (dict_update priv d) \<rparr>) \<rparr>)"

definition title_with_origin :: "bool \<Rightarrow> string \<Rightarrow> string \<Rightarrow> string" where
  "title_with_origin prefix_enabled origin_name title =
     (if \<not> prefix_enabled then title
      else let prefix = ''['' @ origin_name @ ''] '' in
           if startswith title prefix then title else prefix @ title)"

definition add_sync_note :: "string \<Rightarrow> string \<Rightarrow> string" where
  "add_sync_note desc note =
     (if note \<noteq> [] \<and> \<not> py_in note desc then
        (if strip desc \<noteq> [] then desc @ [CHR 0x0A, CHR 0x0A] @ note else note)
      else desc)"

text \<open>Lines 190 to 206. The three rules in the order of the source: keyword, event
  type, known prefix.\<close>

definition should_skip_event :: "event \<Rightarrow> config \<Rightarrow> string list \<Rightarrow> bool" where
  "should_skip_event ev cfg known_prefixes =
     (let title = strip (or_empty (ev_summary ev)) in
      if list_ex (\<lambda>kw. kw \<noteq> [] \<and> py_in (lower kw) (lower title))
           (get_or (ignore_if_summary_contains cfg) [])
      then True
      else let ignore_types = set (or_empty (ignore_event_types cfg));
               ev_type = strip (or_empty (ev_eventType ev)) in
           if ev_type \<noteq> [] \<and> ev_type \<in> ignore_types then True
           else if get_or (skip_if_title_has_known_prefix cfg) True
                   \<and> list_ex (\<lambda>px. startswith title px) known_prefixes
           then True
           else False)"

definition valid_visibility :: "string option \<Rightarrow> bool" where
  "valid_visibility v =
     (v = Some ''default'' \<or> v = Some ''private'' \<or> v = Some ''public'' \<or> v = Some ''confidential'')"

definition desired_copy_visibility_for :: "calendar \<Rightarrow> config \<Rightarrow> string" where
  "desired_copy_visibility_for cal_cfg global_cfg =
     (let v = copy_visibility cal_cfg in
      if valid_visibility v then or_empty v
      else let v = default_copy_visibility global_cfg in
           if valid_visibility v then or_empty v
           else ''private'')"

section \<open>The replica gateway\<close>

text \<open>
  Modelled from the spec: the Replica Gateway (the Google Calendar client behind
  \<^verbatim>\<open>svc.events()\<close>) is an external collaborator that the repository does not hold.
  Section 6 of the specification gives its interface: list, query by chain tag, get,
  insert, update, patch, delete, each of which "may fail with a provider error".
  A world holds, for every session and calendar id, the events of the calendar in
  provider order. Every request is appended to \<open>trace\<close>; request number \<open>n\<close> fails
  with \<open>HttpError\<close> when \<open>faults w n\<close> holds, so every pattern of provider failures is
  covered (the gateway raises no other exception). A request for an event id that the
  calendar does not hold fails too ("not found"). A successful write stamps the event with the server clock, and an
  insert draws the new event's id from \<open>new_id\<close>.
\<close>

datatype exn = HttpError | StopIteration | KeyError

datatype call =
    ListCall nat string
  | QueryCall nat string string
  | GetCall nat string string
  | InsertCall nat string event
  | UpdateCall nat string string event
  | PatchCall nat string string meta
  | DeleteCall nat string string

text \<open>The lines the program prints, one constructor per \<^verbatim>\<open>print\<close> statement with the
  values it interpolates.\<close>

datatype msg =
    Found string nat
  | NoteFromGmail string
  | WarnMeta string
  | Created string string
  | InsertFailed string
  | UpdateFailed string
  | Deleted string string
  | DeleteFailed string
  | CreatedMissing string string
  | Updated string string
  | Done

record world =
  store :: "nat \<times> string \<Rightarrow> event list"
  clock :: nat
  new_id :: "nat \<Rightarrow> string"
  faults :: "nat \<Rightarrow> bool"
  trace :: "call list"
  out :: "msg list"

definition print_msg :: "msg \<Rightarrow> world \<Rightarrow> world" where
  "print_msg m w = w \<lparr> out := out w @ [m] \<rparr>"

text \<open>Every request is recorded; request number \<open>length (trace w)\<close> is the next one.\<close>

definition log_call :: "call \<Rightarrow> world \<Rightarrow> world" where
  "log_call c w = w \<lparr> trace := trace w @ [c] \<rparr>"

definition failing :: "world \<Rightarrow> bool" where
  "failing w = faults w (length (trace w))"

definition has_chain :: "string \<Rightarrow> event \<Rightarrow> bool" where
  "has_chain chain_id e = (map_of (get_private_meta e) ''trisync_chain_id'' = Some chain_id)"

text \<open>The calendar after the event with id \<open>eid\<close> has been replaced by \<open>e'\<close>.\<close>

definition write_back :: "nat \<Rightarrow> string \<Rightarrow> string \<Rightarrow> event \<Rightarrow> world \<Rightarrow> world" where
  "write_back svc cal_id eid e' w =
     w \<lparr> store := (store w) ((svc, cal_id) :=
             map (\<lambda>e. if ev_id e = eid then e' else e) (store w (svc, cal_id))),
         clock := Suc (clock w) \<rparr>"

definition events_list :: "nat \<Rightarrow> string \<Rightarrow> world \<Rightarrow> (exn + event list) \<times> world" where
  "events_list svc cal_id w =
     (if failing w then Inl HttpError else Inr (store w (svc, cal_id)),
      log_call (ListCall svc cal_id) w)"

text \<open>The query of \<^verbatim>\<open>find_event_by_chain\<close>: the events whose private property
  \<^verbatim>\<open>trisync_chain_id\<close> equals \<open>chain_id\<close>, at most two (\<^verbatim>\<open>maxResults=2\<close>).\<close>

definition events_query :: "nat \<Rightarrow> string \<Rightarrow> string \<Rightarrow> world \<Rightarrow> (exn + event list) \<times> world" where
  "events_query svc cal_id chain_id w =
     (if failing w then Inl HttpError
      else Inr (take 2 (filter (has_chain chain_id) (store w (svc, cal_id)))),
      log_call (QueryCall svc cal_id chain_id) w)"

definition events_get :: "nat \<Rightarrow> string \<Rightarrow> string \<Rightarrow> world \<Rightarrow> (exn + event) \<times> world" where
  "events_get svc cal_id eid w =
     (if failing w then Inl HttpError
      else (case find (\<lambda>e. ev_id e = eid) (store w (svc, cal_id)) of
              None \<Rightarrow> Inl HttpError
            | Some e \<Rightarrow> Inr e),
      log_call (GetCall svc cal_id eid) w)"

definition events_insert :: "nat \<Rightarrow> string \<Rightarrow> event \<Rightarrow> world \<Rightarrow> (exn + event) \<times> world" where
  "events_insert svc cal_id body w =
     (if failing w then (Inl HttpError, log_call (InsertCall svc cal_id body) w)
      else let e = body \<lparr> ev_id := new_id w (clock w), ev_updated := Some (clock w) \<rparr> in
           (Inr e,
            (log_call (InsertCall svc cal_id body) w)
              \<lparr> store := (store w) ((svc, cal_id) := store w (svc, cal_id) @ [e]),
                clock := Suc (clock w) \<rparr>))"

definition events_update :: "nat \<Rightarrow> string \<Rightarrow> string \<Rightarrow> event \<Rightarrow> world \<Rightarrow> (exn + event) \<times> world" where
  "events_update svc cal_id eid body w =
     (if failing w \<or> \<not> list_ex (\<lambda>e. ev_id e = eid) (store w (svc, cal_id))
      then (Inl HttpError, log_call (UpdateCall svc cal_id eid body) w)
      else let e' = body \<lparr> ev_id := eid, ev_updated := Some (clock w) \<rparr> in
           (Inr e', write_back svc cal_id eid e' (log_call (UpdateCall svc cal_id eid body) w)))"

definition events_patch :: "nat \<Rightarrow> string \<Rightarrow> string \<Rightarrow> meta \<Rightarrow> world \<Rightarrow> (exn + event) \<times> world" where
  "events_patch svc cal_id eid priv w =
     (if failing w then (Inl HttpError, log_call (PatchCall svc cal_id eid priv) w)
      else case find (\<lambda>e. ev_id e = eid) (store w (svc, cal_id)) of
             None \<Rightarrow> (Inl HttpError, log_call (PatchCall svc cal_id eid priv) w)
           | Some e0 \<Rightarrow>
               (let e' = (set_private_meta e0 priv) \<lparr> ev_updated := Some (clock w) \<rparr> in
                (Inr e', write_back svc cal_id eid e' (log_call (PatchCall svc cal_id eid priv) w))))"

definition events_delete :: "nat \<Rightarrow> string \<Rightarrow> string \<Rightarrow> world \<Rightarrow> (exn + unit) \<times> world" where
  "events_delete svc cal_id eid w =
     (if failing w \<or> \<not> list_ex (\<lambda>e. ev_id e = eid) (store w (svc, cal_id))
      then (Inl HttpError, log_call (DeleteCall svc cal_id eid) w)
      else (Inr (),
            (log_call (DeleteCall svc cal_id eid) w)
              \<lparr> store := (store w) ((svc, cal_id) :=
                           filter (\<lambda>e. ev_id e \<noteq> eid) (store w (svc, cal_id))) \<rparr>))"

text \<open>A request that writes: insert, update, patch or delete.\<close>

fun is_write :: "call \<Rightarrow> bool" where
  "is_write (ListCall _ _) = False"
| "is_write (QueryCall _ _ _) = False"
| "is_write (GetCall _ _ _) = False"
| "is_write (InsertCall _ _ _) = True"
| "is_write (UpdateCall _ _ _ _) = True"
| "is_write (PatchCall _ _ _ _) = True"
| "is_write (DeleteCall _ _ _) = True"


section \<open>The program's operations on the gateway\<close>

text \<open>Lines 108 to 123. The provider answers with one page holding every event (no
  \<^verbatim>\<open>nextPageToken\<close>), so the paging loop runs once.\<close>

definition list_events :: "nat \<Rightarrow> string \<Rightarrow> world \<Rightarrow> (exn + event list) \<times> world" where
  "list_events svc cal_id w = events_list svc cal_id w"

text \<open>Lines 125 to 133.\<close>

definition find_event_by_chain :: "nat \<Rightarrow> string \<Rightarrow> string \<Rightarrow> world \<Rightarrow> (exn + event option) \<times> world" where
  "find_event_by_chain svc cal_id chain_id w =
     (case events_query svc cal_id chain_id w of
        (Inl e, w1) \<Rightarrow> (Inl e, w1)
      | (Inr items, w1) \<Rightarrow> (Inr (case items of [] \<Rightarrow> None | x # _ \<Rightarrow> Some x), w1))"

text \<open>Lines 135 to 155.\<close>

definition create_copy ::
  "nat \<Rightarrow> string \<Rightarrow> event \<Rightarrow> config \<Rightarrow> string \<Rightarrow> string \<Rightarrow> world \<Rightarrow> (exn + event) \<times> world" where
  "create_copy svc target_calendar_id source_event cfg origin_name chain_id w =
     (let clone =
            \<lparr> ev_id = [],
              ev_summary = Some (title_with_origin (get_or (prefix_origin_in_title cfg) True)
                                   origin_name (get_or (ev_summary source_event) [])),
              ev_location = Some (get_or (ev_location source_event) []),
              ev_description = Some (add_sync_note (get_or (ev_description source_event) [])
                                       (get_or (sync_tag_in_description cfg) [])),
              ev_start = Some (get_or (ev_start source_event) []),
              ev_end = Some (get_or (ev_end source_event) []),
              ev_visibility = Some (get_or (ev_visibility source_event) ''default''),
              ev_reminders = Some (get_or (ev_reminders source_event) (Reminders True [])),
              ev_eventType = None,
              ev_updated = None,
              ev_extendedProperties = None \<rparr>;
          clone = set_private_meta clone
                    [(''trisync'', ''1''),
                     (''trisync_chain_id'', chain_id),
                     (''trisync_origin'', origin_name)]
      in events_insert svc target_calendar_id clone w)"

text \<open>Lines 172 to 175: the loop over the four keys, written out. It returns
  \<open>desired\<close> and \<open>changed\<close>.\<close>

definition diff_fields :: "event \<Rightarrow> event \<Rightarrow> event \<Rightarrow> event \<times> bool" where
  "diff_fields ex sr desired =
     (let changed = False;
          (desired, changed) =
             (if ev_location ex \<noteq> ev_location sr
              then (desired \<lparr> ev_location := ev_location sr \<rparr>, True) else (desired, changed));
          (desired, changed) =
             (if ev_description ex \<noteq> ev_description sr
              then (desired \<lparr> ev_description := ev_description sr \<rparr>, True) else (desired, changed));
          (desired, changed) =
             (if ev_start ex \<noteq> ev_start sr
              then (desired \<lparr> ev_start := ev_start sr \<rparr>, True) else (desired, changed));
          (desired, changed) =
             (if ev_end ex \<noteq> ev_end sr
              then (desired \<lparr> ev_end := ev_end sr \<rparr>, True) else (desired, changed))
      in (desired, changed))"

text \<open>Lines 167 to 188.\<close>

definition update_if_diff ::
  "nat \<Rightarrow> string \<Rightarrow> event \<Rightarrow> event \<Rightarrow> config \<Rightarrow> world \<Rightarrow> (exn + event \<times> bool) \<times> world" where
  "update_if_diff svc cal_id existing source_like cfg w =
     (let ex = canonical_event_dict existing;
          sr = canonical_event_dict source_like;
          (desired, changed) = diff_fields ex sr existing;
          desired = desired \<lparr> ev_description :=
                       Some (add_sync_note (get_or (ev_description desired) [])
                               (get_or (sync_tag_in_description cfg) [])) \<rparr>
      in if changed then
           (case events_update svc cal_id (ev_id existing) desired w of
              (Inr r, w1) \<Rightarrow> (Inr (r, True), w1)
            | (Inl HttpError, w1) \<Rightarrow> (Inr (existing, False), print_msg (UpdateFailed cal_id) w1)
            | (Inl e, w1) \<Rightarrow> (Inl e, w1))
         else (Inr (existing, False), w))"

text \<open>\<^verbatim>\<open>next(c for c in calendars if c['name'] == name)\<close>; \<open>None\<close> stands for the
  \<^verbatim>\<open>StopIteration\<close> it raises when no calendar has the name.\<close>

definition next_calendar :: "calendar list \<Rightarrow> string \<Rightarrow> calendar option" where
  "next_calendar calendars n = find (\<lambda>c. name c = n) calendars"

text \<open>Lines 213 to 218: the origin recorded on the first member that carries one.\<close>

fun scan_origin :: "(string \<times> event) list \<Rightarrow> string option" where
  "scan_origin [] = None"
| "scan_origin ((n, ev) # items) =
     (case map_of (get_private_meta ev) ''trisync_origin'' of
        Some origin \<Rightarrow> Some origin
      | None \<Rightarrow> scan_origin items)"

text \<open>Lines 228 to 239: the loop that deletes the synced copies.\<close>

fun delete_copies ::
  "calendar list \<Rightarrow> string \<Rightarrow> string \<Rightarrow> (string \<times> event) list \<Rightarrow> world \<Rightarrow> (exn + unit) \<times> world" where
  "delete_copies calendars chain_id origin_name [] w = (Inr (), w)"
| "delete_copies calendars chain_id origin_name ((n, ev) # items) w =
     (if n = origin_name then delete_copies calendars chain_id origin_name items w
      else case next_calendar calendars n of
             None \<Rightarrow> (Inl StopIteration, w)
           | Some c \<Rightarrow>
               (let priv = get_private_meta ev in
                if map_of priv ''trisync'' = Some ''1'' \<and> map_of priv ''trisync_chain_id'' = Some chain_id
                then (case events_delete (service c) (calendar_id c) (ev_id ev) w of
                        (Inr u, w1) \<Rightarrow>
                          delete_copies calendars chain_id origin_name items
                            (print_msg (Deleted (take 6 chain_id) n) w1)
                      | (Inl HttpError, w1) \<Rightarrow>
                          delete_copies calendars chain_id origin_name items
                            (print_msg (DeleteFailed n) w1)
                      | (Inl e, w1) \<Rightarrow> (Inl e, w1))
                else delete_copies calendars chain_id origin_name items w))"

text \<open>Lines 208 to 240.\<close>

definition perform_safe_delete ::
  "calendar list \<Rightarrow> string \<Rightarrow> (string \<times> event) list \<Rightarrow> config \<Rightarrow> world \<Rightarrow> (exn + bool) \<times> world" where
  "perform_safe_delete calendars chain_id items cfg w =
     (case scan_origin items of
        None \<Rightarrow> (Inr False, w)
      | Some origin_name \<Rightarrow>
          if origin_name = [] then (Inr False, w)
          else if list_ex (\<lambda>(n, ev). n = origin_name) items then (Inr False, w)
          else if \<not> get_or (sync_delete cfg) False then (Inr True, w)
          else (case delete_copies calendars chain_id origin_name items w of
                  (Inl e, w1) \<Rightarrow> (Inl e, w1)
                | (Inr u, w1) \<Rightarrow> (Inr True, w1)))"

section \<open>The pass\<close>

type_synonym member = "string \<times> event"
type_synonym chain_map = "(string \<times> member list) list"

text \<open>\<^verbatim>\<open>chain_map.setdefault(chain_id, []).append(x)\<close> on a dict in insertion order.\<close>

fun setdefault_append :: "string \<Rightarrow> member \<Rightarrow> chain_map \<Rightarrow> chain_map" where
  "setdefault_append k x [] = [(k, [x])]"
| "setdefault_append k x ((k', xs) # rest) =
     (if k = k' then (k', xs @ [x]) # rest else (k', xs) # setdefault_append k x rest)"

text \<open>Lines 278 to 281: fetch every calendar's events.\<close>

fun fetch_all ::
  "calendar list \<Rightarrow> (string \<times> event list) list \<Rightarrow> world
     \<Rightarrow> (exn + (string \<times> event list) list) \<times> world" where
  "fetch_all [] cal_events w = (Inr cal_events, w)"
| "fetch_all (c # cs) cal_events w =
     (case list_events (service c) (calendar_id c) w of
        (Inl e, w1) \<Rightarrow> (Inl e, w1)
      | (Inr evs, w1) \<Rightarrow>
          fetch_all cs (dict_set (name c) evs cal_events)
            (print_msg (Found (name c) (length evs)) w1))"

text \<open>Lines 288 to 296: the events of one calendar are put into \<open>chain_map\<close> when they
  carry the sync metadata, dropped when a filter rule skips them, and put into
  \<open>unsynced\<close> otherwise.\<close>

fun classify_events ::
  "config \<Rightarrow> string list \<Rightarrow> string \<Rightarrow> event list \<Rightarrow> chain_map \<times> member list
     \<Rightarrow> chain_map \<times> member list" where
  "classify_events cfg known_prefixes n [] acc = acc"
| "classify_events cfg known_prefixes n (ev # evs) (chain_map, unsynced) =
     (let priv = get_private_meta ev in
      case (if map_of priv ''trisync'' = Some ''1'' then map_of priv ''trisync_chain_id'' else None) of
        Some chain_id \<Rightarrow>
          classify_events cfg known_prefixes n evs
            (setdefault_append chain_id (n, ev) chain_map, unsynced)
      | None \<Rightarrow>
          if should_skip_event ev cfg known_prefixes
          then classify_events cfg known_prefixes n evs (chain_map, unsynced)
          else classify_events cfg known_prefixes n evs (chain_map, unsynced @ [(n, ev)]))"

text \<open>Lines 286 to 296; \<^verbatim>\<open>cal_events[name]\<close> raises \<^verbatim>\<open>KeyError\<close> on a missing key.\<close>

fun classify ::
  "config \<Rightarrow> string list \<Rightarrow> (string \<times> event list) list \<Rightarrow> calendar list
     \<Rightarrow> chain_map \<times> member list \<Rightarrow> exn + chain_map \<times> member list" where
  "classify cfg known_prefixes cal_events [] acc = Inr acc"
| "classify cfg known_prefixes cal_events (c # cs) acc =
     (case map_of cal_events (name c) of
        None \<Rightarrow> Inl KeyError
      | Some evs \<Rightarrow>
          classify cfg known_prefixes cal_events cs
            (classify_events cfg known_prefixes (name c) evs acc))"

text \<open>Lines 300 to 317: tag the source event as the origin of its chain. The local
  event is tagged before the patch request is sent, so it stays tagged when the request
  fails; \<^verbatim>\<open>except Exception\<close> catches every failure.\<close>

definition tag_origin ::
  "calendar list \<Rightarrow> string \<Rightarrow> event \<Rightarrow> string \<Rightarrow> world \<Rightarrow> event \<times> world" where
  "tag_origin calendars src_name ev chain_id w =
     (case next_calendar calendars src_name of
        None \<Rightarrow> (ev, print_msg (WarnMeta src_name) w)
      | Some c \<Rightarrow>
          if or_empty (ev_eventType ev) \<noteq> ''fromGmail'' then
            (let ev' = set_private_meta ev
                         [(''trisync'', ''1''),
                          (''trisync_chain_id'', chain_id),
                          (''trisync_origin'', src_name)]
             in case events_patch (service c) (calendar_id c) (ev_id ev') (get_private_meta ev') w of
                  (Inr r, w1) \<Rightarrow> (ev', w1)
                | (Inl e, w1) \<Rightarrow> (ev', print_msg (WarnMeta src_name) w1))
          else (ev, print_msg (NoteFromGmail src_name) w))"

text \<open>Lines 327 to 336 and 373 to 381, the same statements in both places: insert
  the copy, then force its visibility to the target's policy. They stand inside a
  \<^verbatim>\<open>try\<close> whose handler catches \<open>HttpError\<close>; the caller prints the messages.\<close>

definition create_forced ::
  "calendar \<Rightarrow> event \<Rightarrow> config \<Rightarrow> string \<Rightarrow> string \<Rightarrow> world \<Rightarrow> (exn + event) \<times> world" where
  "create_forced c source_event cfg origin_name chain_id w =
     (case create_copy (service c) (calendar_id c) source_event cfg origin_name chain_id w of
        (Inl e, w1) \<Rightarrow> (Inl e, w1)
      | (Inr copied, w1) \<Rightarrow>
          (let vis = desired_copy_visibility_for c cfg in
           if ev_visibility copied \<noteq> Some vis
           then events_update (service c) (calendar_id c) (ev_id copied)
                  (copied \<lparr> ev_visibility := Some vis \<rparr>) w1
           else (Inr copied, w1)))"

text \<open>Lines 319 to 339: give every other calendar a copy of a new source event.\<close>

fun seed_copies ::
  "config \<Rightarrow> string \<Rightarrow> event \<Rightarrow> string \<Rightarrow> calendar list \<Rightarrow> world \<Rightarrow> (exn + unit) \<times> world" where
  "seed_copies cfg src_name ev chain_id [] w = (Inr (), w)"
| "seed_copies cfg src_name ev chain_id (c # cs) w =
     (if name c = src_name then seed_copies cfg src_name ev chain_id cs w
      else case find_event_by_chain (service c) (calendar_id c) chain_id w of
             (Inl e, w1) \<Rightarrow> (Inl e, w1)
           | (Inr (Some found), w1) \<Rightarrow> seed_copies cfg src_name ev chain_id cs w1
           | (Inr None, w1) \<Rightarrow>
               (case create_forced c ev cfg src_name chain_id w1 of
                  (Inr copied, w2) \<Rightarrow>
                    seed_copies cfg src_name ev chain_id cs
                      (print_msg (Created (name c) (take 40 (or_empty (ev_summary ev)))) w2)
                | (Inl HttpError, w2) \<Rightarrow>
                    seed_copies cfg src_name ev chain_id cs (print_msg (InsertFailed (name c)) w2)
                | (Inl e, w2) \<Rightarrow> (Inl e, w2)))"

text \<open>Lines 298 to 341: every unsynced event seeds a chain.\<close>

fun bootstrap ::
  "(string \<Rightarrow> string) \<Rightarrow> config \<Rightarrow> calendar list \<Rightarrow> member list \<Rightarrow> chain_map \<Rightarrow> world
     \<Rightarrow> (exn + chain_map) \<times> world" where
  "bootstrap digest cfg calendars [] chain_map w = (Inr chain_map, w)"
| "bootstrap digest cfg calendars ((src_name, ev) # unsynced) chain_map w =
     (let chain_id = compute_chain_id digest src_name (ev_id ev) in
      case tag_origin calendars src_name ev chain_id w of
        (ev', w1) \<Rightarrow>
          (case seed_copies cfg src_name ev' chain_id calendars w1 of
             (Inl e, w2) \<Rightarrow> (Inl e, w2)
           | (Inr u, w2) \<Rightarrow>
               bootstrap digest cfg calendars unsynced
                 (setdefault_append chain_id (src_name, ev') chain_map) w2))"

text \<open>Lines 344 to 353: re-fetch every member by id; on \<open>HttpError\<close> the member keeps
  the event of the list snapshot.\<close>

fun refresh :: "calendar list \<Rightarrow> member list \<Rightarrow> world \<Rightarrow> (exn + member list) \<times> world" where
  "refresh calendars [] w = (Inr [], w)"
| "refresh calendars ((n, ev) # items) w =
     (case next_calendar calendars n of
        None \<Rightarrow> (Inl StopIteration, w)
      | Some c \<Rightarrow>
          (case (case events_get (service c) (calendar_id c) (ev_id ev) w of
                   (Inr ev_ref, w1) \<Rightarrow> (Inr ev_ref, w1)
                 | (Inl HttpError, w1) \<Rightarrow> (Inr ev, w1)
                 | (Inl e, w1) \<Rightarrow> (Inl e, w1)) of
             (Inl e, w1) \<Rightarrow> (Inl e, w1)
           | (Inr ev_ref, w1) \<Rightarrow>
               (case refresh calendars items w1 of
                  (Inl e, w2) \<Rightarrow> (Inl e, w2)
                | (Inr refreshed, w2) \<Rightarrow> (Inr ((n, ev_ref) # refreshed), w2))))"

text \<open>Lines 359 to 361: \<^verbatim>\<open>max(items, key=...)\<close> returns the first member with the
  latest stamp.\<close>

definition upd_ts :: "event \<Rightarrow> nat" where
  "upd_ts ev = get_or (ev_updated ev) 0"

fun max_member :: "member \<Rightarrow> member list \<Rightarrow> member" where
  "max_member best [] = best"
| "max_member best (x # xs) =
     max_member (if upd_ts (snd best) < upd_ts (snd x) then x else best) xs"

text \<open>Lines 364 to 398: reconcile one calendar with the source of the chain.\<close>

definition reconcile_calendar ::
  "config \<Rightarrow> string \<Rightarrow> string \<Rightarrow> event \<Rightarrow> event \<Rightarrow> calendar \<Rightarrow> world \<Rightarrow> (exn + unit) \<times> world" where
  "reconcile_calendar cfg chain_id source_name source_event model c w =
     (case find_event_by_chain (service c) (calendar_id c) chain_id w of
        (Inl e, w1) \<Rightarrow> (Inl e, w1)
      | (Inr None, w1) \<Rightarrow>
          (case create_forced c source_event cfg
                  (get_or (map_of (get_private_meta source_event) ''trisync_origin'') source_name)
                  chain_id w1 of
             (Inr copied, w2) \<Rightarrow> (Inr (), print_msg (CreatedMissing (take 6 chain_id) (name c)) w2)
           | (Inl HttpError, w2) \<Rightarrow> (Inr (), print_msg (InsertFailed (name c)) w2)
           | (Inl e, w2) \<Rightarrow> (Inl e, w2))
      | (Inr (Some target_ev), w1) \<Rightarrow>
          (case update_if_diff (service c) (calendar_id c) target_ev model cfg w1 of
             (Inl e, w2) \<Rightarrow> (Inl e, w2)
           | (Inr (updated_ev, changed), w2) \<Rightarrow>
               (let vis = desired_copy_visibility_for c cfg in
                if ev_visibility updated_ev \<noteq> Some vis then
                  (case events_update (service c) (calendar_id c) (ev_id updated_ev)
                          (updated_ev \<lparr> ev_visibility := Some vis \<rparr>) w2 of
                     (Inl e, w3) \<Rightarrow> (Inl e, w3)
                   | (Inr r, w3) \<Rightarrow> (Inr (), print_msg (Updated (take 6 chain_id) (name c)) w3))
                else if changed
                then (Inr (), print_msg (Updated (take 6 chain_id) (name c)) w2)
                else (Inr (), w2))))"

fun reconcile ::
  "config \<Rightarrow> string \<Rightarrow> string \<Rightarrow> event \<Rightarrow> event \<Rightarrow> calendar list \<Rightarrow> world \<Rightarrow> (exn + unit) \<times> world" where
  "reconcile cfg chain_id source_name source_event model [] w = (Inr (), w)"
| "reconcile cfg chain_id source_name source_event model (c # cs) w =
     (case reconcile_calendar cfg chain_id source_name source_event model c w of
        (Inl e, w1) \<Rightarrow> (Inl e, w1)
      | (Inr u, w1) \<Rightarrow> reconcile cfg chain_id source_name source_event model cs w1)"

text \<open>Lines 344 to 398: the body of the loop over the chains.\<close>

definition process_chain ::
  "config \<Rightarrow> calendar list \<Rightarrow> string \<Rightarrow> member list \<Rightarrow> world \<Rightarrow> (exn + unit) \<times> world" where
  "process_chain cfg calendars chain_id items w =
     (case refresh calendars items w of
        (Inl e, w1) \<Rightarrow> (Inl e, w1)
      | (Inr refreshed, w1) \<Rightarrow>
          (case perform_safe_delete calendars chain_id refreshed cfg w1 of
             (Inl e, w2) \<Rightarrow> (Inl e, w2)
           | (Inr True, w2) \<Rightarrow> (Inr (), w2)
           | (Inr False, w2) \<Rightarrow>
               (case refreshed of
                  [] \<Rightarrow> (Inr (), w2)
                | first # others \<Rightarrow>
                    (case max_member first others of
                       (source_name, source_event) \<Rightarrow>
                         reconcile cfg chain_id source_name source_event
                           (canonical_event_dict source_event) calendars w2))))"

fun process_chains ::
  "config \<Rightarrow> calendar list \<Rightarrow> chain_map \<Rightarrow> world \<Rightarrow> (exn + unit) \<times> world" where
  "process_chains cfg calendars [] w = (Inr (), w)"
| "process_chains cfg calendars ((chain_id, items) # rest) w =
     (case process_chain cfg calendars chain_id items w of
        (Inl e, w1) \<Rightarrow> (Inl e, w1)
      | (Inr u, w1) \<Rightarrow> process_chains cfg calendars rest w1)"

text \<open>Lines 263 to 399, after the sessions are open: \<open>calendars\<close> is the list that
  lines 267 to 273 build.\<close>

definition main ::
  "(string \<Rightarrow> string) \<Rightarrow> config \<Rightarrow> calendar list \<Rightarrow> world \<Rightarrow> (exn + unit) \<times> world" where
  "main digest cfg calendars w =
     (let known_prefixes = map (\<lambda>c. ''['' @ name c @ ''] '') calendars in
      case fetch_all calendars [] w of
        (Inl e, w1) \<Rightarrow> (Inl e, w1)
      | (Inr cal_events, w1) \<Rightarrow>
          (case classify cfg known_prefixes cal_events calendars ([], []) of
             Inl e \<Rightarrow> (Inl e, w1)
           | Inr (chain_map, unsynced) \<Rightarrow>
               (case bootstrap digest cfg calendars unsynced chain_map w1 of
                  (Inl e, w2) \<Rightarrow> (Inl e, w2)
                | (Inr chain_map', w2) \<Rightarrow>
                    (case process_chains cfg calendars chain_map' w2 of
                       (Inl e, w3) \<Rightarrow> (Inl e, w3)
                     | (Inr u, w3) \<Rightarrow> (Inr (), print_msg Done w3)))))"

section \<open>Notions for the statements\<close>











section \<open>Concrete inputs\<close>

text \<open>Two and three calendars, each the primary calendar of its own account, and the
  configuration with every key absent.\<close>

definition calA :: calendar where
  "calA = \<lparr> name = ''A'', calendar_id = ''primary'', copy_visibility = None, service = 0 \<rparr>"

definition calB :: calendar where
  "calB = \<lparr> name = ''B'', calendar_id = ''primary'', copy_visibility = None, service = 1 \<rparr>"

definition calC :: calendar where
  "calC = \<lparr> name = ''C'', calendar_id = ''primary'', copy_visibility = None, service = 2 \<rparr>"

definition cfg_default :: config where
  "cfg_default =
     \<lparr> prefix_origin_in_title = None, sync_tag_in_description = None,
       ignore_if_summary_contains = None, ignore_event_types = None,
       skip_if_title_has_known_prefix = None, sync_delete = None,
       default_copy_visibility = None \<rparr>"

text \<open>An untracked event as a user creates it.\<close>

definition dentist :: event where
  "dentist =
     \<lparr> ev_id = ''e1'', ev_summary = Some ''Dentist'', ev_location = None,
       ev_description = Some ''hello'', ev_start = None, ev_end = None,
       ev_visibility = None, ev_reminders = None, ev_eventType = None,
       ev_updated = Some 0, ev_extendedProperties = None \<rparr>"

text \<open>The sync metadata of a chain, a tracked origin on calendar A, its mirror on
  calendar B, and a world with the given calendars, no failing request and an empty trace.\<close>

definition sync_meta :: "string \<Rightarrow> string \<Rightarrow> extprops option" where
  "sync_meta chain_id origin =
     Some \<lparr> private_meta = Some [(''trisync'', ''1''), (''trisync_chain_id'', chain_id),
                                  (''trisync_origin'', origin)],
            shared_meta = None \<rparr>"

definition origin_a :: event where
  "origin_a = dentist \<lparr> ev_extendedProperties := sync_meta ''A:e1'' ''A'' \<rparr>"

definition mirror_b :: event where
  "mirror_b =
     \<lparr> ev_id = ''m1'', ev_summary = Some ''[A] Dentist'', ev_location = Some [],
       ev_description = Some ''hello'', ev_start = Some [], ev_end = Some [],
       ev_visibility = Some ''public'', ev_reminders = Some (Reminders True []),
       ev_eventType = None, ev_updated = Some 0,
       ev_extendedProperties = sync_meta ''A:e1'' ''A'' \<rparr>"

definition world_of :: "(nat \<times> string \<Rightarrow> event list) \<Rightarrow> world" where
  "world_of st =
     \<lparr> store = st, clock = 1, new_id = (\<lambda>n. ''g'' @ replicate n (CHR ''i'')),
       faults = (\<lambda>n. False), trace = [], out = [] \<rparr>"

text \<open>A second mirror on calendar C; the two mirrors alone, their origin on calendar A
  gone; a calendar whose configured name is the empty string, and a mirror whose chain
  records that calendar as its origin.\<close>

definition mirror_c :: event where
  "mirror_c = mirror_b \<lparr> ev_id := ''m2'' \<rparr>"

definition calE :: calendar where
  "calE = \<lparr> name = [], calendar_id = ''primary'', copy_visibility = None, service = 3 \<rparr>"

definition mirror_e :: event where
  "mirror_e = mirror_b \<lparr> ev_extendedProperties := sync_meta '':e1'' [] \<rparr>"

definition orphans :: world where
  "orphans = world_of ((\<lambda>k. [])((1, ''primary'') := [mirror_b], (2, ''primary'') := [mirror_c]))"

text \<open>Events whose title holds the word "lunch", one of them tracked, and a
  configuration that ignores the keyword.\<close>

definition lunch :: event where
  "lunch = dentist \<lparr> ev_id := ''e2'', ev_summary := Some ''Team Lunch '' \<rparr>"

definition tracked_lunch :: event where
  "tracked_lunch = lunch \<lparr> ev_id := ''e3'', ev_extendedProperties := sync_meta ''A:e3'' ''A'' \<rparr>"

definition cfg_lunch :: config where
  "cfg_lunch = cfg_default \<lparr> ignore_if_summary_contains := Some [''LUNCH''] \<rparr>"

text \<open>An untracked event that the provider derived from a mail, alone on calendar A.\<close>

definition gmail :: event where
  "gmail = dentist \<lparr> ev_eventType := Some ''fromGmail'' \<rparr>"

definition inbox :: world where
  "inbox = world_of ((\<lambda>k. [])((0, ''primary'') := [gmail]))"

text \<open>A configuration with a sync-tag note; a world with one new event on calendar A,
  and the worlds that one pass and a second pass leave behind.\<close>

definition cfg_note :: config where
  "cfg_note = cfg_default \<lparr> sync_tag_in_description := Some ''[s]'' \<rparr>"

definition fresh :: world where
  "fresh = world_of ((\<lambda>k. [])((0, ''primary'') := [dentist]))"

definition after_first :: world where
  "after_first = snd (main (\<lambda>s. s) cfg_note [calA, calB] fresh)"

definition after_second :: world where
  "after_second = snd (main (\<lambda>s. s) cfg_note [calA, calB] after_first)"

text \<open>A tracked chain whose mirror on B has a visibility other than the policy, with the
  eighth request failing; and the same origin with no mirror yet, its visibility
  public, again with the eighth request failing.\<close>

definition diverged :: world where
  "diverged =
     (world_of ((\<lambda>k. [])((0, ''primary'') := [origin_a \<lparr> ev_visibility := Some ''private'' \<rparr>],
                           (1, ''primary'') := [mirror_b])))
       \<lparr> faults := (\<lambda>n. n = 7) \<rparr>"

definition unmirrored :: world where
  "unmirrored =
     (world_of ((\<lambda>k. [])((0, ''primary'') := [origin_a \<lparr> ev_visibility := Some ''public'' \<rparr>])))
       \<lparr> faults := (\<lambda>n. n = 7) \<rparr>"

section \<open>Properties\<close>

lemmas string_defs = or_empty_def get_or_def strip_def is_space_def lower_def lower_char_def

lemmas model_defs = main_def list_events_def events_list_def events_query_def events_get_def events_insert_def
  events_update_def events_patch_def events_delete_def log_call_def failing_def write_back_def print_msg_def has_chain_def
  find_event_by_chain_def create_copy_def diff_fields_def update_if_diff_def next_calendar_def perform_safe_delete_def
  tag_origin_def create_forced_def reconcile_calendar_def process_chain_def upd_ts_def
  canonical_event_dict_def compute_chain_id_def get_private_meta_def set_private_meta_def title_with_origin_def
  add_sync_note_def should_skip_event_def valid_visibility_def desired_copy_visibility_for_def
  or_empty_def get_or_def strip_def is_space_def lower_def lower_char_def Let_def

lemmas input_defs = calA_def calB_def calC_def cfg_default_def dentist_def sync_meta_def origin_a_def
  mirror_b_def world_of_def mirror_c_def calE_def mirror_e_def orphans_def
  lunch_def tracked_lunch_def cfg_lunch_def gmail_def inbox_def
  cfg_note_def fresh_def after_first_def after_second_def diverged_def unmirrored_def

lemma log_call_simps [simp]:
  "trace (log_call c w) = trace w @ [c]"
  "store (log_call c w) = store w"
  "faults (log_call c w) = faults w"
  "clock (log_call c w) = clock w"
  "out (log_call c w) = out w"
  "new_id (log_call c w) = new_id w"
  by (simp_all add: log_call_def)

lemma print_msg_simps [simp]:
  "trace (print_msg m w) = trace w"
  "store (print_msg m w) = store w"
  "faults (print_msg m w) = faults w"
  "clock (print_msg m w) = clock w"
  "out (print_msg m w) = out w @ [m]"
  by (simp_all add: print_msg_def)

lemma write_back_simps [simp]:
  "trace (write_back svc cal_id eid e' w) = trace w"
  "faults (write_back svc cal_id eid e' w) = faults w"
  "out (write_back svc cal_id eid e' w) = out w"
  "store (write_back svc cal_id eid e' w) k =
     (if k = (svc, cal_id) then map (\<lambda>e. if ev_id e = eid then e' else e) (store w k) else store w k)"
  by (simp_all add: write_back_def)

lemma failing_simps [simp]:
  "failing (print_msg m w) = failing w"
  by (simp add: failing_def)




lemma should_skip_event_unfold:
  "should_skip_event ev cfg known_prefixes =
     ((\<exists>kw \<in> set (get_or (ignore_if_summary_contains cfg) []).
          kw \<noteq> [] \<and> py_in (lower kw) (lower (strip (or_empty (ev_summary ev)))))
      \<or> (strip (or_empty (ev_eventType ev)) \<noteq> []
          \<and> strip (or_empty (ev_eventType ev)) \<in> set (or_empty (ignore_event_types cfg)))
      \<or> (get_or (skip_if_title_has_known_prefix cfg) True
          \<and> (\<exists>px \<in> set known_prefixes. startswith (strip (or_empty (ev_summary ev))) px)))"
  by (auto simp: should_skip_event_def Let_def list_ex_iff)

subsection \<open>Empty entries of the filter lists\<close>

text \<open>
  C10. An empty string in \<^verbatim>\<open>ignore_if_summary_contains\<close> never causes an event to be
  skipped: \<open>should_skip_event\<close> gives the same answer when the empty keywords are removed
  from the list. An event whose \<^verbatim>\<open>eventType\<close> is missing or empty is never skipped by
  the \<^verbatim>\<open>ignore_event_types\<close> rule: whatever the configured list holds (the empty
  string too), the answer is the one given with no list at all.
\<close>

theorem should_skip_event_empty_entries:
  "should_skip_event ev (cfg \<lparr> ignore_if_summary_contains := Some kws \<rparr>) known_prefixes
     = should_skip_event ev
         (cfg \<lparr> ignore_if_summary_contains := Some (filter (\<lambda>kw. kw \<noteq> []) kws) \<rparr>) known_prefixes
   \<and> ((ev_eventType ev = None \<or> ev_eventType ev = Some []) \<longrightarrow>
        should_skip_event ev (cfg \<lparr> ignore_event_types := Some tys \<rparr>) known_prefixes
          = should_skip_event ev (cfg \<lparr> ignore_event_types := None \<rparr>) known_prefixes)"
  by (auto simp: should_skip_event_unfold get_or_def or_empty_def strip_def)

theorem should_skip_event_empty_entries_witness:
  "(ev_eventType dentist = None \<or> ev_eventType dentist = Some [])
   \<and> should_skip_event dentist
         (cfg_default \<lparr> ignore_if_summary_contains := Some [[]], ignore_event_types := Some [[]] \<rparr>) []
       = should_skip_event dentist
         (cfg_default \<lparr> ignore_if_summary_contains := Some [[]], ignore_event_types := None \<rparr>) []
   \<and> \<not> should_skip_event dentist
         (cfg_default \<lparr> ignore_if_summary_contains := Some [[]], ignore_event_types := Some [[]] \<rparr>) []"
  using should_skip_event_empty_entries
          [where ev = dentist and cfg = "cfg_default \<lparr> ignore_if_summary_contains := Some [[]] \<rparr>"
             and kws = "[[]]" and known_prefixes = "[]" and tys = "[[]]"]
  by (simp add: should_skip_event_def dentist_def cfg_default_def string_defs)

subsection \<open>The refresh of a chain\<close>

lemma refresh_step:
  "next_calendar calendars n = Some c \<Longrightarrow>
   refresh calendars ((n, ev) # items) w =
     (case refresh calendars items (log_call (GetCall (service c) (calendar_id c) (ev_id ev)) w) of
        (Inl e, w2) \<Rightarrow> (Inl e, w2)
      | (Inr refreshed, w2) \<Rightarrow>
          (Inr ((n, if failing w then ev
                    else case find (\<lambda>e. ev_id e = ev_id ev) (store w (service c, calendar_id c)) of
                           None \<Rightarrow> ev | Some e \<Rightarrow> e) # refreshed), w2))"
  by (simp add: events_get_def split: option.splits)

text \<open>
  C4, as the code has it. Every member of the chain is re-fetched by id from its replica,
  one \<^verbatim>\<open>get\<close> request per member in order. A member whose re-fetch fails (the event
  is not found, or the request fails otherwise) is not dropped: it stays in the chain
  with the event of the list snapshot. The refreshed chain has the same members, replica
  by replica; each carries the stored event when the request succeeds and the stale one
  when it does not. The refresh writes nothing.
\<close>

theorem refresh_keeps_members:
  assumes "\<forall>(n, ev) \<in> set items. next_calendar calendars n \<noteq> None"
  shows "fst (refresh calendars items w) =
           Inr (map (\<lambda>(i, (n, ev)).
                  (n, if faults w i then ev
                      else case find (\<lambda>e. ev_id e = ev_id ev)
                                  (store w (service (the (next_calendar calendars n)),
                                            calendar_id (the (next_calendar calendars n)))) of
                             None \<Rightarrow> ev
                           | Some e \<Rightarrow> e))
                (enumerate (length (trace w)) items))
         \<and> store (snd (refresh calendars items w)) = store w
         \<and> trace (snd (refresh calendars items w)) =
             trace w @ map (\<lambda>(n, ev). GetCall (service (the (next_calendar calendars n)))
                                        (calendar_id (the (next_calendar calendars n))) (ev_id ev)) items"
  using assms
proof (induction items arbitrary: w)
  case Nil
  then show ?case by simp
next
  case (Cons a items)
  obtain n ev where a: "a = (n, ev)" by (cases a)
  from Cons.prems a obtain c where c: "next_calendar calendars n = Some c" by auto
  let ?w1 = "log_call (GetCall (service c) (calendar_id c) (ev_id ev)) w"
  from Cons.prems have "\<forall>(n, ev) \<in> set items. next_calendar calendars n \<noteq> None" by simp
  note ih = Cons.IH[OF this, of ?w1]
  obtain r w2 where rw: "refresh calendars items ?w1 = (r, w2)" by (cases "refresh calendars items ?w1")
  from ih rw show ?case
    by (simp add: a refresh_step[OF c] c failing_def split_def del: refresh.simps
          cong: option.case_cong)
qed

theorem refresh_keeps_members_witness:
  "next_calendar [calA, calB] ''A'' \<noteq> None \<and> next_calendar [calA, calB] ''B'' \<noteq> None
   \<and> fst (refresh [calA, calB] [(''A'', origin_a), (''B'', mirror_b)]
            (world_of ((\<lambda>k. [])((1, ''primary'') := [mirror_b \<lparr> ev_visibility := Some ''private'' \<rparr>]))))
       = Inr [(''A'', origin_a), (''B'', mirror_b \<lparr> ev_visibility := Some ''private'' \<rparr>)]"
proof -
  have h: "\<forall>(n, ev) \<in> set [(''A'', origin_a), (''B'', mirror_b)]. next_calendar [calA, calB] n \<noteq> None"
    by (simp add: next_calendar_def calA_def calB_def)
  show ?thesis
    using h refresh_keeps_members[OF h, of "world_of ((\<lambda>k. [])((1, ''primary'') := [mirror_b \<lparr> ev_visibility := Some ''private'' \<rparr>]))"]
    by (simp add: input_defs next_calendar_def enumerate_eq_zip)
qed

text \<open>The claim as stated fails: the event \<open>e1\<close> is gone from calendar A, the re-fetch
  answers "not found", and the member is still in the refreshed chain.\<close>

theorem refresh_not_found_counterexample:
  "find (\<lambda>e. ev_id e = ev_id origin_a) (store (world_of (\<lambda>k. [])) (service calA, calendar_id calA)) = None
   \<and> refresh [calA] [(''A'', origin_a)] (world_of (\<lambda>k. []))
       = (Inr [(''A'', origin_a)], log_call (GetCall 0 ''primary'' ''e1'') (world_of (\<lambda>k. [])))"
  by (simp add: events_get_def failing_def next_calendar_def input_defs)

subsection \<open>The source's own replica\<close>




subsection \<open>Safe delete\<close>















subsection \<open>Classification and the keyword filter\<close>











subsection \<open>Visibility policy\<close>


















subsection \<open>Candidates of type fromGmail\<close>










subsection \<open>A second pass over unchanged calendars\<close>

text \<open>\<open>update_if_diff\<close> reports a change only when one of location, description, start
  and end differs between the canonical forms of the mirror and of the source.\<close>

lemma diff_fields_changed:
  "snd (diff_fields ex sr d) \<longleftrightarrow>
     ev_location ex \<noteq> ev_location sr \<or> ev_description ex \<noteq> ev_description sr
     \<or> ev_start ex \<noteq> ev_start sr \<or> ev_end ex \<noteq> ev_end sr"
  by (auto simp: diff_fields_def Let_def)

lemma update_if_diff_changed:
  assumes "update_if_diff svc cal_id existing source_like cfg w = (Inr (r, True), w')"
  shows "ev_location (canonical_event_dict existing) \<noteq> ev_location (canonical_event_dict source_like)
       \<or> ev_description (canonical_event_dict existing) \<noteq> ev_description (canonical_event_dict source_like)
       \<or> ev_start (canonical_event_dict existing) \<noteq> ev_start (canonical_event_dict source_like)
       \<or> ev_end (canonical_event_dict existing) \<noteq> ev_end (canonical_event_dict source_like)"
proof -
  obtain d ch where df: "diff_fields (canonical_event_dict existing) (canonical_event_dict source_like) existing = (d, ch)"
    by (cases "diff_fields (canonical_event_dict existing) (canonical_event_dict source_like) existing")
  from assms df have ch by (cases ch) (simp_all add: update_if_diff_def)
  with df diff_fields_changed[of "canonical_event_dict existing" "canonical_event_dict source_like" existing]
  show ?thesis by simp
qed

text \<open>
  C1, evaluated where the code departs from it. With a sync-tag note configured, a
  first pass over one new event on calendar A ends normally and leaves the origin with
  the description \<^verbatim>\<open>hello\<close> and the mirror on B with the note appended. A second
  pass over the calendars exactly as the first pass left them sends a write all the
  same: the sixth of its seven requests is an update, and it rewrites the description
  of the origin.
\<close>

theorem second_pass_writes:
  "fst (main (\<lambda>s. s) cfg_note [calA, calB] fresh) = Inr ()
   \<and> fst (main (\<lambda>s. s) cfg_note [calA, calB] after_first) = Inr ()
   \<and> map ev_description (store after_first (0, ''primary'')) = [Some ''hello'']
   \<and> map is_write (drop (length (trace after_first)) (trace after_second))
       = [False, False, False, False, False, True, False]
   \<and> map ev_description (store after_second (0, ''primary''))
       = [Some (''hello'' @ [CHR 0x0A, CHR 0x0A] @ ''[s]'')]"
  by (simp add: model_defs input_defs)

subsection \<open>A failing visibility update\<close>

text \<open>
  C7, evaluated where the code departs from it. The mirror on B exists and its
  visibility differs from the policy; the update that enforces the policy (lines 391 to
  395, outside any \<^verbatim>\<open>try\<close>) fails. The exception leaves \<open>main\<close>: the run ends
  with \<open>HttpError\<close>, prints no completion marker, and calendar C, next in the loop,
  never gets its mirror. On the sibling path, where the mirror is created first (lines
  373 to 384), the same failing update is caught and logged and the run completes.
\<close>

theorem visibility_failure_aborts:
  "fst (main (\<lambda>s. s) cfg_default [calA, calB, calC] diverged) = Inl HttpError
   \<and> out (snd (main (\<lambda>s. s) cfg_default [calA, calB, calC] diverged))
       = [Found ''A'' 1, Found ''B'' 1, Found ''C'' 0]
   \<and> store (snd (main (\<lambda>s. s) cfg_default [calA, calB, calC] diverged)) (2, ''primary'') = []
   \<and> fst (main (\<lambda>s. s) cfg_default [calA, calB] unmirrored) = Inr ()
   \<and> out (snd (main (\<lambda>s. s) cfg_default [calA, calB] unmirrored))
       = [Found ''A'' 1, Found ''B'' 0, Updated ''A:e1'' ''A'', InsertFailed ''B'', Done]"
  by (simp add: model_defs input_defs)

end
